theory Spec2Isabelle
  imports Complex_Main "HOL-Library.Multiset"
begin

section \<open>Strings and the regular-expression character classes\<close>

text \<open>
  A Python \<open>str\<close> is a sequence of Unicode code points: \<open>len\<close> counts code points and
  \<open>ord\<close> reads one. A password is therefore a list of code points, each a natural
  number; \<open>str\<close> turns an ASCII literal of the source into such a list.
\<close>

type_synonym pystr = "nat list"

definition str :: "string \<Rightarrow> pystr" where
  "str cs = map of_char cs"

text \<open>The class \<^verbatim>\<open>[a-z]\<close> of the source's patterns.\<close>

definition is_lower :: "nat \<Rightarrow> bool" where
  "is_lower c = (97 \<le> c \<and> c \<le> 122)"

text \<open>The class \<^verbatim>\<open>[A-Z]\<close>.\<close>

definition is_upper :: "nat \<Rightarrow> bool" where
  "is_upper c = (65 \<le> c \<and> c \<le> 90)"

text \<open>
  The class \<^verbatim>\<open>\d\<close>. The source's patterns are \<open>str\<close> patterns compiled without
  \<^verbatim>\<open>re.ASCII\<close>, so \<^verbatim>\<open>\d\<close> matches every code point of the Unicode category Nd
  (decimal digit), not only \<^verbatim>\<open>0\<close> to \<^verbatim>\<open>9\<close>. The decimal digits come in runs of ten,
  zero first; \<open>nd_zeros\<close> lists the zero of every run (Unicode 14.0, the database of
  CPython 3.11; later versions of the database only add runs).
\<close>

definition nd_zeros :: "nat list" where
  "nd_zeros =
    [0x30, 0x660, 0x6F0, 0x7C0, 0x966, 0x9E6, 0xA66, 0xAE6, 0xB66, 0xBE6, 0xC66, 0xCE6,
     0xD66, 0xDE6, 0xE50, 0xED0, 0xF20, 0x1040, 0x1090, 0x17E0, 0x1810, 0x1946, 0x19D0,
     0x1A80, 0x1A90, 0x1B50, 0x1BB0, 0x1C40, 0x1C50, 0xA620, 0xA8D0, 0xA900, 0xA9D0,
     0xA9F0, 0xAA50, 0xABF0, 0xFF10, 0x104A0, 0x10D30, 0x11066, 0x110F0, 0x11136,
     0x111D0, 0x112F0, 0x11450, 0x114D0, 0x11650, 0x116C0, 0x11730, 0x118E0, 0x11950,
     0x11C50, 0x11D50, 0x11DA0, 0x16A60, 0x16AC0, 0x16B50, 0x1D7CE, 0x1D7D8, 0x1D7E2,
     0x1D7EC, 0x1D7F6, 0x1E140, 0x1E2F0, 0x1E950, 0x1FBF0]"

definition is_digit :: "nat \<Rightarrow> bool" where
  "is_digit c = list_ex (\<lambda>z. z \<le> c \<and> c < z + 10) nd_zeros"

text \<open>The class \<^verbatim>\<open>[^a-zA-Z0-9]\<close>: every code point outside the three ASCII ranges.\<close>

definition is_special :: "nat \<Rightarrow> bool" where
  "is_special c = (\<not> (97 \<le> c \<and> c \<le> 122) \<and> \<not> (65 \<le> c \<and> c \<le> 90) \<and> \<not> (48 \<le> c \<and> c \<le> 57))"

text \<open>
  \<^verbatim>\<open>len(re.findall(cls, s))\<close> for a one-character class counts the code points of the
  class; \<^verbatim>\<open>bool(re.search(cls, s))\<close> says whether there is one.
\<close>

definition findall_count :: "(nat \<Rightarrow> bool) \<Rightarrow> pystr \<Rightarrow> nat" where
  "findall_count cls s = length (filter cls s)"

definition search :: "(nat \<Rightarrow> bool) \<Rightarrow> pystr \<Rightarrow> bool" where
  "search cls s = list_ex cls s"

section \<open>The character analyzer\<close>

record char_dict =
  lowercase :: nat
  uppercase :: nat
  digits :: nat
  special :: nat
  has_lowercase :: bool
  has_uppercase :: bool
  has_digits :: bool
  has_special :: bool
  unique_chars :: nat

definition analyze_characters :: "pystr \<Rightarrow> char_dict" where
  "analyze_characters password =
    \<lparr> lowercase = findall_count is_lower password,
      uppercase = findall_count is_upper password,
      digits = findall_count is_digit password,
      special = findall_count is_special password,
      has_lowercase = search is_lower password,
      has_uppercase = search is_upper password,
      has_digits = search is_digit password,
      has_special = search is_special password,
      unique_chars = card (set password) \<rparr>"

section \<open>What the interpreter supplies\<close>

text \<open>
  Two operations of the interpreter are outside the repository and are taken as
  parameters: \<open>unicode_lower\<close>, the result of \<^verbatim>\<open>str.lower()\<close> on a string that has a
  code point outside ASCII (the Unicode case mapping), and \<open>format_1f\<close>, the text
  \<^verbatim>\<open>f"{x:.1f}"\<close> of a float. On an ASCII string \<^verbatim>\<open>str.lower()\<close> is written out below.

  Python floats are modelled by the real numbers they approximate. The one effect of
  the double format that the analysis can reach, the \<^verbatim>\<open>OverflowError\<close> of
  \<^verbatim>\<open>2 ** entropy\<close>, is written out in \<open>estimate_crack_time\<close>.
\<close>

record runtime =
  unicode_lower :: "pystr \<Rightarrow> pystr"
  format_1f :: "real \<Rightarrow> string"

definition ascii_lower :: "nat \<Rightarrow> nat" where
  "ascii_lower c = (if 65 \<le> c \<and> c \<le> 90 then c + 32 else c)"

definition lower :: "runtime \<Rightarrow> pystr \<Rightarrow> pystr" where
  "lower rt s = (if list_all (\<lambda>c. c < 128) s then map ascii_lower s else unicode_lower rt s)"

text \<open>\<^verbatim>\<open>sub in s\<close> on strings: \<open>sub\<close> occurs in \<open>s\<close> as a contiguous substring.\<close>

fun is_substring :: "pystr \<Rightarrow> pystr \<Rightarrow> bool" where
  "is_substring sub [] = (sub = [])"
| "is_substring sub (c # cs) = (take (length sub) (c # cs) = sub \<or> is_substring sub cs)"

text \<open>The slice \<^verbatim>\<open>s[i:j]\<close> for \<open>0 \<le> i \<le> j\<close>.\<close>

definition slice :: "pystr \<Rightarrow> nat \<Rightarrow> nat \<Rightarrow> pystr" where
  "slice s i j = take (j - i) (drop i s)"

text \<open>
  Python's \<^verbatim>\<open>round(x)\<close> of a float: the nearest integer, a tie going to the even one.
  \<open>round_ndigits x 2\<close> is \<^verbatim>\<open>round(x, 2)\<close>.
\<close>

definition py_round :: "real \<Rightarrow> int" where
  "py_round x =
    (let f = \<lfloor>x\<rfloor>; d = x - of_int f
     in if d < 1 / 2 then f else if 1 / 2 < d then f + 1 else if even f then f else f + 1)"

definition round_ndigits :: "real \<Rightarrow> nat \<Rightarrow> real" where
  "round_ndigits x n = of_int (py_round (x * 10 ^ n)) / 10 ^ n"

section \<open>The analyzer's reference data\<close>

definition common_passwords :: "pystr list" where
  "common_passwords = map str
    [''password'', ''123456'', ''123456789'', ''qwerty'', ''abc123'',
     ''password123'', ''admin'', ''letmein'', ''welcome'', ''monkey'',
     ''dragon'', ''master'', ''shadow'', ''superman'', ''michael'',
     ''football'', ''baseball'', ''liverpool'', ''jordan'', ''princess'']"

definition keyboard_rows :: "pystr list" where
  "keyboard_rows = map str [''qwertyuiop'', ''asdfghjkl'', ''zxcvbnm'', ''1234567890'']"

text \<open>
  The substitution table in the order of the dictionary literal, which is the order
  \<^verbatim>\<open>items()\<close> yields.
\<close>

definition substitutions :: "(nat \<times> nat) list" where
  "substitutions = map (\<lambda>(a, b). (of_char a, of_char b))
    [(CHR ''@'', CHR ''a''), (CHR ''3'', CHR ''e''), (CHR ''1'', CHR ''i''),
     (CHR ''0'', CHR ''o''), (CHR ''5'', CHR ''s''), (CHR ''7'', CHR ''t''),
     (CHR ''4'', CHR ''a''), (CHR ''8'', CHR ''b''), (CHR ''!'', CHR ''i'')]"

definition common_words :: "pystr list" where
  "common_words = map str
    [''password'', ''admin'', ''user'', ''login'', ''welcome'',
     ''hello'', ''world'', ''test'', ''demo'', ''sample'']"

definition months :: "pystr list" where
  "months = map str
    [''jan'', ''feb'', ''mar'', ''apr'', ''may'', ''jun'', ''jul'', ''aug'', ''sep'', ''oct'',
     ''nov'', ''dec'']"

definition weekdays :: "pystr list" where
  "weekdays = map str
    [''monday'', ''tuesday'', ''wednesday'', ''thursday'', ''friday'', ''saturday'',
     ''sunday'']"

section \<open>The pattern analyzer\<close>

text \<open>
  \<open>_find_repeated_chars\<close>: the loop over \<^verbatim>\<open>range(len(password) - 1)\<close> with the list
  \<open>repeated\<close> it appends to, then \<^verbatim>\<open>list(set(repeated))\<close>. Python does not fix the
  order of a list made from a set; the model keeps the order of first occurrence.
\<close>

function repeated_loop :: "pystr \<Rightarrow> nat \<Rightarrow> nat list \<Rightarrow> nat list" where
  "repeated_loop password i repeated =
    (if i + 1 < length password
     then repeated_loop password (i + 1)
            (if password ! i = password ! (i + 1) then repeated @ [password ! i] else repeated)
     else repeated)"
  by pat_completeness auto
termination
  by (relation "measure (\<lambda>(password, i, repeated). length password - i)") auto

declare repeated_loop.simps [simp del]

definition find_repeated_chars :: "pystr \<Rightarrow> nat list" where
  "find_repeated_chars password = remdups (repeated_loop password 0 [])"

text \<open>
  \<open>_find_sequential_patterns\<close>: the loop over \<^verbatim>\<open>range(len(password) - 2)\<close>; \<open>i\<close> runs
  while \<open>i + 2\<close> is an index of the password.
\<close>

function sequential_loop :: "pystr \<Rightarrow> nat \<Rightarrow> pystr list \<Rightarrow> pystr list" where
  "sequential_loop password i sequences =
    (if i + 2 < length password
     then sequential_loop password (i + 1)
            (if password ! (i + 1) = password ! i + 1 \<and> password ! (i + 2) = password ! i + 2
             then sequences @ [slice password i (i + 3)] else sequences)
     else sequences)"
  by pat_completeness auto
termination
  by (relation "measure (\<lambda>(password, i, sequences). length password - i)") auto

declare sequential_loop.simps [simp del]

definition find_sequential_patterns :: "pystr \<Rightarrow> pystr list" where
  "find_sequential_patterns password = sequential_loop password 0 []"

text \<open>
  \<open>_find_keyboard_patterns\<close>: for every row, in order, every window of three keys
  whose lower-cased text occurs in the lower-cased password.
\<close>

definition row_windows :: "pystr \<Rightarrow> pystr list" where
  "row_windows row = map (\<lambda>i. slice row i (i + 3)) [0 ..< length row - 2]"

definition find_keyboard_patterns :: "runtime \<Rightarrow> pystr \<Rightarrow> pystr list" where
  "find_keyboard_patterns rt password =
    concat (map (\<lambda>row. filter (\<lambda>pattern. is_substring (lower rt pattern) (lower rt password))
                          (row_windows row))
                keyboard_rows)"

text \<open>
  \<open>_find_common_substitutions\<close>: the annotation is the character, a space, the three
  code points the source file has between the spaces (U+201A, U+00DC, U+00ED), a space
  and the replacement.
\<close>

definition find_common_substitutions :: "pystr \<Rightarrow> pystr list" where
  "find_common_substitutions password =
    map (\<lambda>(char, replacement). [char, 32, 0x201A, 0xDC, 0xED, 32, replacement])
      (filter (\<lambda>(char, replacement). char \<in> set password) substitutions)"

definition find_dictionary_words :: "runtime \<Rightarrow> pystr \<Rightarrow> pystr list" where
  "find_dictionary_words rt password =
    filter (\<lambda>word. is_substring (lower rt word) (lower rt password)) common_words"

record pattern_dict =
  repeated_chars :: "nat list"
  sequential :: "pystr list"
  keyboard_patterns :: "pystr list"
  common_substitutions :: "pystr list"
  dictionary_words :: "pystr list"

definition analyze_patterns :: "runtime \<Rightarrow> pystr \<Rightarrow> pattern_dict" where
  "analyze_patterns rt password =
    \<lparr> repeated_chars = find_repeated_chars password,
      sequential = find_sequential_patterns password,
      keyboard_patterns = find_keyboard_patterns rt password,
      common_substitutions = find_common_substitutions password,
      dictionary_words = find_dictionary_words rt password \<rparr>"

section \<open>The security checks\<close>

text \<open>
  \<open>_contains_personal_info\<close> searches the lower-cased password for \<^verbatim>\<open>\d{4}\<close> (four
  digits in a row), then for a month's abbreviation, then for a weekday's name.
\<close>

fun four_digits :: "pystr \<Rightarrow> bool" where
  "four_digits (a # b # c # d # cs) =
    ((is_digit a \<and> is_digit b \<and> is_digit c \<and> is_digit d) \<or> four_digits (b # c # d # cs))"
| "four_digits cs = False"

definition contains_personal_info :: "runtime \<Rightarrow> pystr \<Rightarrow> bool" where
  "contains_personal_info rt password =
    (if four_digits (lower rt password) then True
     else if list_ex (\<lambda>m. is_substring m (lower rt password)) months then True
     else if list_ex (\<lambda>d. is_substring d (lower rt password)) weekdays then True
     else False)"

definition check_pwned_passwords :: "runtime \<Rightarrow> pystr \<Rightarrow> bool" where
  "check_pwned_passwords rt password = (lower rt password \<in> set common_passwords)"

text \<open>
  A dictionary of the source is a record whose fields are its keys. A key that has the
  name of a method, of a parameter, of a key of another dictionary or of a HOL constant
  is written with a suffix: \<open>_key\<close>, or \<open>_req\<close> in the requirements.
\<close>

record requirements_dict =
  min_length :: bool
  has_uppercase_req :: bool
  has_lowercase_req :: bool
  has_digit_req :: bool
  has_special_req :: bool
  all_met :: bool

definition meets_basic_requirements :: "pystr \<Rightarrow> requirements_dict" where
  "meets_basic_requirements password =
    (let requirements =
           \<lparr> min_length = (8 \<le> length password),
             has_uppercase_req = search is_upper password,
             has_lowercase_req = search is_lower password,
             has_digit_req = search is_digit password,
             has_special_req = search is_special password,
             all_met = False \<rparr>
     in requirements
          \<lparr> all_met :=
              list_all (\<lambda>v. v)
                [min_length requirements, has_uppercase_req requirements,
                 has_lowercase_req requirements, has_digit_req requirements,
                 has_special_req requirements] \<rparr>)"

record security_dict =
  is_common :: bool
  contains_personal_info_key :: bool
  pwned_check :: bool
  meets_basic_requirements_key :: requirements_dict

definition security_checks :: "runtime \<Rightarrow> pystr \<Rightarrow> security_dict" where
  "security_checks rt password =
    \<lparr> is_common = (lower rt password \<in> set common_passwords),
      contains_personal_info_key = contains_personal_info rt password,
      pwned_check = check_pwned_passwords rt password,
      meets_basic_requirements_key = meets_basic_requirements password \<rparr>"

section \<open>Entropy and crack time\<close>

text \<open>The first half of \<open>_calculate_entropy\<close>: the four updates of \<open>charset_size\<close>.\<close>

definition charset_size_of :: "pystr \<Rightarrow> nat" where
  "charset_size_of password =
    (let charset_size = 0;
         charset_size = (if search is_lower password then charset_size + 26 else charset_size);
         charset_size = (if search is_upper password then charset_size + 26 else charset_size);
         charset_size = (if search is_digit password then charset_size + 10 else charset_size);
         charset_size = (if search is_special password then charset_size + 32 else charset_size)
     in charset_size)"

definition calculate_entropy :: "pystr \<Rightarrow> real" where
  "calculate_entropy password =
    (let charset_size = charset_size_of password
     in if charset_size = 0 then 0
        else (let entropy = real (length password) * log 2 (real charset_size)
              in round_ndigits entropy 2))"

datatype error = OverflowError

definition format_time :: "runtime \<Rightarrow> real \<Rightarrow> string" where
  "format_time rt seconds =
    (if seconds < 1 then ''Instant''
     else if seconds < 60 then format_1f rt seconds @ '' seconds''
     else if seconds < 3600 then format_1f rt (seconds / 60) @ '' minutes''
     else if seconds < 86400 then format_1f rt (seconds / 3600) @ '' hours''
     else if seconds < 31536000 then format_1f rt (seconds / 86400) @ '' days''
     else format_1f rt (seconds / 31536000) @ '' years'')"

text \<open>
  \<open>_estimate_crack_time\<close>. \<^verbatim>\<open>2 ** entropy\<close> is exact for the integer \<open>0\<close> that
  \<open>_calculate_entropy\<close> returns for an empty character set. For a float \<open>entropy\<close> it is
  the float power, which raises \<^verbatim>\<open>OverflowError\<close> when the result is beyond the
  largest double, just under \<open>2 ^ 1024\<close>. The entropy is a multiple of \<open>0.01\<close>, and \<open>2\<close>
  to the power \<open>1023.99\<close> is still a double, so the power overflows exactly when the
  entropy is \<open>1024\<close> or more.
\<close>

definition estimate_crack_time :: "runtime \<Rightarrow> pystr \<Rightarrow> error + string" where
  "estimate_crack_time rt password =
    (let entropy = calculate_entropy password;
         guesses_per_second = 10 ^ 9
     in if 1024 \<le> entropy then Inl OverflowError
        else (let total_combinations = 2 powr entropy;
                  seconds = total_combinations / (2 * guesses_per_second)
              in Inr (format_time rt seconds)))"

section \<open>Score, level and recommendations\<close>

record analysis_dict =
  password_key :: pystr
  length_key :: nat
  strength_score :: int
  strength_level :: string
  character_analysis :: char_dict
  pattern_analysis :: pattern_dict
  security_checks_key :: security_dict
  entropy :: real
  crack_time :: string
  recommendations :: "string list"

text \<open>
  \<open>_calculate_strength_score\<close>, statement by statement. \<open>score\<close> is a float from the
  second step on; every value it takes is a multiple of \<open>0.25\<close> of magnitude below
  \<open>100\<close>, which a double holds exactly.
\<close>

definition calculate_strength_score :: "analysis_dict \<Rightarrow> int" where
  "calculate_strength_score analysis =
    (let score = 0;
         length = length_key analysis;
         score = (if 12 \<le> length then score + 25
                  else if 8 \<le> length then score + 15
                  else if 6 \<le> length then score + 10
                  else if 4 \<le> length then score + 5
                  else score);
         char_types = sum_list (map of_bool
                        [has_lowercase (character_analysis analysis),
                         has_uppercase (character_analysis analysis),
                         has_digits (character_analysis analysis),
                         has_special (character_analysis analysis)]);
         score = score + char_types * 6.25;
         entropy = entropy analysis;
         score = (if 60 \<le> entropy then score + 20
                  else if 40 \<le> entropy then score + 15
                  else if 25 \<le> entropy then score + 10
                  else if 15 \<le> entropy then score + 5
                  else score);
         score = (if \<not> is_common (security_checks_key analysis) then score + 10 else score);
         score = (if \<not> pwned_check (security_checks_key analysis) then score + 10 else score);
         score = (if all_met (meets_basic_requirements_key (security_checks_key analysis))
                  then score + 10 else score);
         score = (if repeated_chars (pattern_analysis analysis) \<noteq> [] then score - 5 else score);
         score = (if sequential (pattern_analysis analysis) \<noteq> [] then score - 10 else score);
         score = (if keyboard_patterns (pattern_analysis analysis) \<noteq> [] then score - 10
                  else score);
         score = (if dictionary_words (pattern_analysis analysis) \<noteq> [] then score - 15
                  else score)
     in max 0 (min 100 (py_round score)))"

definition get_strength_level :: "int \<Rightarrow> string" where
  "get_strength_level score =
    (if 80 \<le> score then ''Very Strong''
     else if 60 \<le> score then ''Strong''
     else if 40 \<le> score then ''Moderate''
     else if 20 \<le> score then ''Weak''
     else ''Very Weak'')"

definition get_recommendations :: "analysis_dict \<Rightarrow> string list" where
  "get_recommendations analysis =
    (let recommendations = [];
         recommendations =
           (if length_key analysis < 8 then recommendations @ [''Use at least 8 characters'']
            else if length_key analysis < 12
            then recommendations @ [''Consider using 12+ characters for better security'']
            else recommendations);
         char_analysis = character_analysis analysis;
         recommendations =
           (if \<not> has_uppercase char_analysis then recommendations @ [''Add uppercase letters'']
            else recommendations);
         recommendations =
           (if \<not> has_lowercase char_analysis then recommendations @ [''Add lowercase letters'']
            else recommendations);
         recommendations =
           (if \<not> has_digits char_analysis then recommendations @ [''Add numbers'']
            else recommendations);
         recommendations =
           (if \<not> has_special char_analysis
            then recommendations @ [''Add special characters (!@#$%^&*)'']
            else recommendations);
         recommendations =
           (if is_common (security_checks_key analysis)
            then recommendations @ [''Avoid common passwords'']
            else recommendations);
         recommendations =
           (if repeated_chars (pattern_analysis analysis) \<noteq> []
            then recommendations @ [''Avoid repeated characters'']
            else recommendations);
         recommendations =
           (if sequential (pattern_analysis analysis) \<noteq> []
            then recommendations @ [''Avoid sequential patterns (abc, 123)'']
            else recommendations);
         recommendations =
           (if keyboard_patterns (pattern_analysis analysis) \<noteq> []
            then recommendations @ [''Avoid keyboard patterns (qwerty, asdf)'']
            else recommendations);
         recommendations =
           (if dictionary_words (pattern_analysis analysis) \<noteq> []
            then recommendations @ [''Avoid dictionary words'']
            else recommendations)
     in if recommendations = []
        then [''Excellent password! Consider changing it regularly.'']
        else recommendations)"

section \<open>Evaluation\<close>

text \<open>
  \<open>analyze_password\<close> builds the dictionary entry by entry; the only entry whose
  computation can raise is \<open>crack_time\<close>, and then no analysis is returned.
\<close>

definition analyze_password :: "runtime \<Rightarrow> pystr \<Rightarrow> error + analysis_dict" where
  "analyze_password rt pw =
    (case estimate_crack_time rt pw of
       Inl e \<Rightarrow> Inl e
     | Inr time \<Rightarrow>
         (let analysis =
                \<lparr> password_key = pw,
                  length_key = length pw,
                  strength_score = 0,
                  strength_level = ''Very Weak'',
                  character_analysis = analyze_characters pw,
                  pattern_analysis = analyze_patterns rt pw,
                  security_checks_key = security_checks rt pw,
                  entropy = calculate_entropy pw,
                  crack_time = time,
                  recommendations = [] \<rparr>;
              analysis = analysis\<lparr>strength_score := calculate_strength_score analysis\<rparr>;
              analysis = analysis\<lparr>strength_level := get_strength_level (strength_score analysis)\<rparr>;
              analysis = analysis\<lparr>recommendations := get_recommendations analysis\<rparr>
          in Inr analysis))"

section \<open>The password generator of the page\<close>

text \<open>
  \<open>generatePassword\<close> is JavaScript in the page the server sends. Its two sources of
  chance are parameters: \<open>random k\<close> is what the call number \<open>k\<close> of \<^verbatim>\<open>Math.random()\<close>
  returns (counting from \<open>0\<close>), and \<open>sort_random\<close> is what \<^verbatim>\<open>Array.prototype.sort\<close>
  returns under the comparator \<^verbatim>\<open>() => Math.random() - 0.5\<close>, whose order the language
  leaves to the engine.

  \<open>char_at s k\<close> is \<^verbatim>\<open>s[k]\<close> as \<^verbatim>\<open>+=\<close> appends it: the character at an index of the
  string, and the text of \<^verbatim>\<open>undefined\<close> otherwise.
\<close>

definition char_at :: "string \<Rightarrow> int \<Rightarrow> string" where
  "char_at s k = (if 0 \<le> k \<and> k < int (length s) then [s ! nat k] else ''undefined'')"

text \<open>The loop \<^verbatim>\<open>for (let i = 4; i < 16; i++)\<close>; its pass \<open>i\<close> makes the call \<open>i\<close> of
  \<^verbatim>\<open>Math.random()\<close>.\<close>

function fill_loop :: "(nat \<Rightarrow> real) \<Rightarrow> string \<Rightarrow> nat \<Rightarrow> string \<Rightarrow> string" where
  "fill_loop random chars i password =
    (if i < 16
     then fill_loop random chars (i + 1)
            (password @ char_at chars \<lfloor>random i * real (length chars)\<rfloor>)
     else password)"
  by pat_completeness auto
termination
  by (relation "measure (\<lambda>(random, chars, i, password). 16 - i)") auto

declare fill_loop.simps [simp del]

definition generatePassword :: "(nat \<Rightarrow> real) \<Rightarrow> (string list \<Rightarrow> string list) \<Rightarrow> string" where
  "generatePassword random sort_random =
    (let chars = ''ABCDEFGHIJKLMNOPQRSTUVWXYZabcdefghijklmnopqrstuvwxyz0123456789!@#$%^&*'';
         password = [];
         password = password @ char_at ''ABCDEFGHIJKLMNOPQRSTUVWXYZ'' \<lfloor>random 0 * 26\<rfloor>;
         password = password @ char_at ''abcdefghijklmnopqrstuvwxyz'' \<lfloor>random 1 * 26\<rfloor>;
         password = password @ char_at ''0123456789'' \<lfloor>random 2 * 10\<rfloor>;
         password = password @ char_at ''!@#$%^&*'' \<lfloor>random 3 * 8\<rfloor>;
         password = fill_loop random chars 4 password;
         password = concat (sort_random (map (\<lambda>c. [c]) password))
     in password)"

text \<open>
  The function declares no parameter. A call that passes a requested length runs the
  same body: JavaScript drops an argument the function does not declare.
\<close>

definition generatePassword_requested ::
  "nat \<Rightarrow> (nat \<Rightarrow> real) \<Rightarrow> (string list \<Rightarrow> string list) \<Rightarrow> string" where
  "generatePassword_requested n random sort_random = generatePassword random sort_random"

text \<open>
  The alphabets the generator draws from, by name: the four string literals of its first
  four statements, and the constant \<^verbatim>\<open>chars\<close>, their union, of \<open>70\<close> characters.
\<close>

definition upper_letters :: string where "upper_letters = ''ABCDEFGHIJKLMNOPQRSTUVWXYZ''"

definition lower_letters :: string where "lower_letters = ''abcdefghijklmnopqrstuvwxyz''"

definition digit_chars :: string where "digit_chars = ''0123456789''"

definition symbol_chars :: string where "symbol_chars = ''!@#$%^&*''"

definition chars70 :: string where
  "chars70 = ''ABCDEFGHIJKLMNOPQRSTUVWXYZabcdefghijklmnopqrstuvwxyz0123456789!@#$%^&*''"

section \<open>The score as the specification words it\<close>

text \<open>
  The additive synthesis of the score in the specification's words: the single highest
  length band, \<open>6.25\<close> for each character category that is present, the single highest
  entropy band, the three security bonuses and the four penalties.
\<close>

definition length_band :: "nat \<Rightarrow> real" where
  "length_band n =
    (if 12 \<le> n then 25 else if 8 \<le> n then 15 else if 6 \<le> n then 10
     else if 4 \<le> n then 5 else 0)"

definition entropy_band :: "real \<Rightarrow> real" where
  "entropy_band e =
    (if 60 \<le> e then 20 else if 40 \<le> e then 15 else if 25 \<le> e then 10
     else if 15 \<le> e then 5 else 0)"

definition additive_synthesis :: "analysis_dict \<Rightarrow> real" where
  "additive_synthesis a =
     length_band (length_key a)
     + 6.25 * real (length (filter (\<lambda>b. b)
         [has_lowercase (character_analysis a), has_uppercase (character_analysis a),
          has_digits (character_analysis a), has_special (character_analysis a)]))
     + entropy_band (entropy a)
     + (if \<not> is_common (security_checks_key a) then 10 else 0)
     + (if \<not> pwned_check (security_checks_key a) then 10 else 0)
     + (if all_met (meets_basic_requirements_key (security_checks_key a)) then 10 else 0)
     - (if repeated_chars (pattern_analysis a) \<noteq> [] then 5 else 0)
     - (if sequential (pattern_analysis a) \<noteq> [] then 10 else 0)
     - (if keyboard_patterns (pattern_analysis a) \<noteq> [] then 10 else 0)
     - (if dictionary_words (pattern_analysis a) \<noteq> [] then 15 else 0)"

text \<open>
  The character-set size in the specification's words: each category that is present
  contributes its fixed size once.
\<close>

definition charset_size_spec :: "char_dict \<Rightarrow> nat" where
  "charset_size_spec ca =
     (if has_lowercase ca then 26 else 0) + (if has_uppercase ca then 26 else 0)
     + (if has_digits ca then 10 else 0) + (if has_special ca then 32 else 0)"

text \<open>
  The entropy in the specification's words. The categories are the specification's: a
  lowercase letter is \<^verbatim>\<open>a\<close> to \<^verbatim>\<open>z\<close>, an uppercase letter \<^verbatim>\<open>A\<close> to \<^verbatim>\<open>Z\<close>, a digit \<^verbatim>\<open>0\<close> to
  \<^verbatim>\<open>9\<close>, and every other character, non-ASCII ones included, is special. The
  character-set size adds \<open>26\<close>, \<open>26\<close>, \<open>10\<close> and \<open>32\<close> for the categories that are present;
  the entropy is \<open>0\<close> when none is, and otherwise the length times the binary logarithm
  of that size, rounded to two decimal places.
\<close>

definition is_ascii_digit :: "nat \<Rightarrow> bool" where
  "is_ascii_digit c = (48 \<le> c \<and> c \<le> 57)"

definition is_other :: "nat \<Rightarrow> bool" where
  "is_other c = (\<not> is_lower c \<and> \<not> is_upper c \<and> \<not> is_ascii_digit c)"

definition charset_size_words :: "pystr \<Rightarrow> nat" where
  "charset_size_words s =
     (if list_ex is_lower s then 26 else 0) + (if list_ex is_upper s then 26 else 0)
     + (if list_ex is_ascii_digit s then 10 else 0) + (if list_ex is_other s then 32 else 0)"

definition entropy_words :: "pystr \<Rightarrow> real" where
  "entropy_words s =
     (if charset_size_words s = 0 then 0
      else round_ndigits (real (length s) * log 2 (real (charset_size_words s))) 2)"

text \<open>
  A window of three characters whose codes rise by exactly one at each step, and one
  whose codes fall by exactly one.
\<close>

fun ascending_run :: "pystr \<Rightarrow> bool" where
  "ascending_run [a, b, c] = (b = a + 1 \<and> c = a + 2)"
| "ascending_run w = False"

fun descending_run :: "pystr \<Rightarrow> bool" where
  "descending_run [a, b, c] = (a = b + 1 \<and> b = c + 1)"
| "descending_run w = False"

section \<open>The score computation\<close>

text \<open>Each statement of \<open>_calculate_strength_score\<close> adds one term to the running sum.\<close>

lemma length_step:
  "(if 12 \<le> n then s + 25 else if 8 \<le> n then s + 15 else if 6 \<le> n then s + 10
    else if 4 \<le> n then s + 5 else s) = s + length_band n"
  by (simp add: length_band_def)

lemma entropy_step:
  "(if 60 \<le> e then s + 20 else if 40 \<le> e then s + 15 else if 25 \<le> e then s + 10
    else if 15 \<le> e then s + 5 else s) = s + entropy_band e"
  by (simp add: entropy_band_def)

lemma bonus_step: "(if c then s + v else s) = s + (if c then v else 0)" for s v :: real
  by simp

lemma penalty_step: "(if c then s - v else s) = s - (if c then v else 0)" for s v :: real
  by simp

lemma char_types_count:
  "sum_list (map of_bool [a, b, c, d]) = real (length (filter (\<lambda>b. b) [a, b, c, d]))"
  by simp

lemma score_sum:
  "calculate_strength_score a = max 0 (min 100 (py_round (additive_synthesis a)))"
proof -
  have "calculate_strength_score a = max 0 (min 100 (py_round (0 + length_band (length_key a)
     + sum_list (map of_bool
         [has_lowercase (character_analysis a), has_uppercase (character_analysis a),
          has_digits (character_analysis a), has_special (character_analysis a)]) * 6.25
     + entropy_band (entropy a)
     + (if \<not> is_common (security_checks_key a) then 10 else 0)
     + (if \<not> pwned_check (security_checks_key a) then 10 else 0)
     + (if all_met (meets_basic_requirements_key (security_checks_key a)) then 10 else 0)
     - (if repeated_chars (pattern_analysis a) \<noteq> [] then 5 else 0)
     - (if sequential (pattern_analysis a) \<noteq> [] then 10 else 0)
     - (if keyboard_patterns (pattern_analysis a) \<noteq> [] then 10 else 0)
     - (if dictionary_words (pattern_analysis a) \<noteq> [] then 15 else 0))))"
    unfolding calculate_strength_score_def Let_def
    apply (simp only: length_step)
    apply (simp only: entropy_step)
    apply (simp only: bonus_step penalty_step)
    done
  also have "\<dots> = max 0 (min 100 (py_round (additive_synthesis a)))"
    unfolding additive_synthesis_def char_types_count by (simp only: add_0 mult.commute)
  finally show ?thesis .
qed

text \<open>\<open>py_round\<close> is a rounding: the integer it gives is within one half of its argument.\<close>

lemma py_round_nearest: "\<bar>real_of_int (py_round x) - x\<bar> \<le> 1 / 2"
  unfolding py_round_def Let_def by (auto simp: abs_if) linarith+

text \<open>
  Claim C1. For every analysis the score computation can be given, hence for the
  analysis of every password, the strength score is the additive synthesis (length
  band, \<open>6.25\<close> per character category present, entropy band, \<open>10\<close> each for
  not-common, not-pwned and all basic requirements met, less \<open>5\<close>, \<open>10\<close>, \<open>10\<close> and
  \<open>15\<close> for a repeated-character, sequential, keyboard and dictionary finding),
  rounded as Python rounds and clamped to the range from \<open>0\<close> to \<open>100\<close>.
\<close>

theorem strength_score_is_additive_synthesis:
  "calculate_strength_score a = max 0 (min 100 (py_round (additive_synthesis a)))
   \<and> \<bar>real_of_int (py_round (additive_synthesis a)) - additive_synthesis a\<bar> \<le> 1 / 2"
  using score_sum [of a] py_round_nearest [of "additive_synthesis a"] by (rule conjI)

section \<open>Findings that do not reach the score\<close>

text \<open>
  Claim C8. Two analyses that differ only in the substitution findings and in the
  personal-information flag get the same score: replacing both in an analysis, by any
  values, leaves the score as it was.
\<close>

theorem score_ignores_substitutions_and_personal_info:
  "calculate_strength_score
     (a\<lparr>pattern_analysis := (pattern_analysis a)\<lparr>common_substitutions := subs\<rparr>,
        security_checks_key := (security_checks_key a)\<lparr>contains_personal_info_key := p\<rparr>\<rparr>)
   = calculate_strength_score a"
proof -
  define b where
    "b = a\<lparr>pattern_analysis := (pattern_analysis a)\<lparr>common_substitutions := subs\<rparr>,
          security_checks_key := (security_checks_key a)\<lparr>contains_personal_info_key := p\<rparr>\<rparr>"
  have sel:
    "length_key b = length_key a"
    "character_analysis b = character_analysis a"
    "entropy b = entropy a"
    "is_common (security_checks_key b) = is_common (security_checks_key a)"
    "pwned_check (security_checks_key b) = pwned_check (security_checks_key a)"
    "meets_basic_requirements_key (security_checks_key b)
       = meets_basic_requirements_key (security_checks_key a)"
    "repeated_chars (pattern_analysis b) = repeated_chars (pattern_analysis a)"
    "sequential (pattern_analysis b) = sequential (pattern_analysis a)"
    "keyboard_patterns (pattern_analysis b) = keyboard_patterns (pattern_analysis a)"
    "dictionary_words (pattern_analysis b) = dictionary_words (pattern_analysis a)"
    by (simp_all add: b_def)
  have "calculate_strength_score b = calculate_strength_score a"
    unfolding calculate_strength_score_def by (simp only: sel)
  then show ?thesis by (simp only: b_def)
qed

section \<open>The security checks\<close>

text \<open>
  Claim C6. The pwned check and the is-common check are the same function of the
  password: each is the membership of the lower-cased password in the list of common
  passwords.
\<close>

theorem pwned_check_is_common_check:
  "check_pwned_passwords rt = (\<lambda>password. is_common (security_checks rt password))
   \<and> pwned_check (security_checks rt password) = is_common (security_checks rt password)
   \<and> is_common (security_checks rt password) = (lower rt password \<in> set common_passwords)"
  by (simp add: check_pwned_passwords_def security_checks_def fun_eq_iff)

section \<open>Sequential runs\<close>

lemma slice_window:
  "i + 2 < length s \<Longrightarrow> slice s i (i + 3) = [s ! i, s ! (i + 1), s ! (i + 2)]"
proof -
  assume i: "i + 2 < length s"
  have "take 3 (drop i s) = [drop i s ! 0, drop i s ! 1, drop i s ! 2]"
    using i by (intro nth_equalityI) (auto simp: less_Suc_eq numeral_3_eq_3)
  then show ?thesis using i by (simp add: slice_def)
qed

text \<open>The loop from index \<open>i\<close> appends, in order, the ascending windows from \<open>i\<close> on.\<close>

lemma sequential_loop_eq:
  "sequential_loop s i acc =
     acc @ filter ascending_run (map (\<lambda>k. slice s k (k + 3)) [i ..< length s - 2])"
proof (induction s i acc rule: sequential_loop.induct)
  case (1 s i acc)
  show ?case
  proof (cases "i + 2 < length s")
    case True
    then have upt: "[i ..< length s - 2] = i # [i + 1 ..< length s - 2]"
      by (simp add: upt_conv_Cons)
    have w: "slice s i (i + 3) = [s ! i, s ! (i + 1), s ! (i + 2)]"
      using True by (rule slice_window)
    have step: "sequential_loop s i acc = sequential_loop s (i + 1)
            (if s ! (i + 1) = s ! i + 1 \<and> s ! (i + 2) = s ! i + 2
             then acc @ [slice s i (i + 3)] else acc)"
      using True by (subst sequential_loop.simps) (simp only: if_True)
    show ?thesis
      unfolding step "1.IH" [OF True] upt
      by (simp add: w del: upt_Suc)
  next
    case False
    have "sequential_loop s i acc = acc"
      using False by (subst sequential_loop.simps) (simp only: if_False)
    then show ?thesis using False by simp
  qed
qed

lemma find_sequential_eq:
  "find_sequential_patterns s =
     filter ascending_run (map (\<lambda>k. slice s k (k + 3)) [0 ..< length s - 2])"
  by (simp add: find_sequential_patterns_def sequential_loop_eq)

lemma window_recorded_iff:
  assumes "i + 2 < length s"
  shows "slice s i (i + 3) \<in> set (find_sequential_patterns s)
         \<longleftrightarrow> (s ! (i + 1) = s ! i + 1 \<and> s ! (i + 2) = s ! i + 2)"
proof -
  have "i \<in> set [0 ..< length s - 2]" using assms by simp
  then have "slice s i (i + 3) \<in> set (find_sequential_patterns s)
             \<longleftrightarrow> ascending_run (slice s i (i + 3))"
    unfolding find_sequential_eq set_filter set_map by blast
  then show ?thesis using assms by (simp add: slice_window)
qed

lemma ascending_not_descending: "ascending_run w \<Longrightarrow> \<not> descending_run w"
  by (induction w rule: ascending_run.induct) auto

lemma upt7: "[0 ..< 7] = [0, 1, 2, 3, 4, 5, 6::nat]"
  by (simp add: upt_rec)

lemma sequential_example:
  "find_sequential_patterns (str ''abcXYZ123'') = [str ''abc'', str ''XYZ'', str ''123'']"
  by (simp add: find_sequential_eq str_def slice_def upt7)

text \<open>
  Claim C7. The sequential findings are, in order, the 3-character windows of the
  password that are ascending runs of step one, each window checked on its own; the
  window at an index \<open>i\<close> is recorded exactly when the codes at \<open>i + 1\<close> and \<open>i + 2\<close>
  are the code at \<open>i\<close> plus one and plus two; no finding is a descending run; and
  \<^verbatim>\<open>abcXYZ123\<close> gives \<^verbatim>\<open>abc\<close>, \<^verbatim>\<open>XYZ\<close> and \<^verbatim>\<open>123\<close>, so \<^verbatim>\<open>abc\<close> and \<^verbatim>\<open>123\<close> and
  not \<^verbatim>\<open>cba\<close>.
\<close>

theorem sequential_findings:
  "find_sequential_patterns s =
     filter ascending_run (map (\<lambda>k. slice s k (k + 3)) [0 ..< length s - 2])
   \<and> (i + 2 < length s \<longrightarrow>
        (slice s i (i + 3) \<in> set (find_sequential_patterns s))
          = (s ! (i + 1) = s ! i + 1 \<and> s ! (i + 2) = s ! i + 2))
   \<and> (\<forall>w \<in> set (find_sequential_patterns s). ascending_run w \<and> \<not> descending_run w)
   \<and> find_sequential_patterns (str ''abcXYZ123'') = [str ''abc'', str ''XYZ'', str ''123'']
   \<and> str ''cba'' \<notin> set (find_sequential_patterns (str ''abcXYZ123''))"
proof (intro conjI impI ballI)
  show "find_sequential_patterns s =
     filter ascending_run (map (\<lambda>k. slice s k (k + 3)) [0 ..< length s - 2])"
    by (rule find_sequential_eq)
next
  assume "i + 2 < length s"
  then show "(slice s i (i + 3) \<in> set (find_sequential_patterns s))
          = (s ! (i + 1) = s ! i + 1 \<and> s ! (i + 2) = s ! i + 2)"
    by (rule window_recorded_iff)
next
  fix w assume "w \<in> set (find_sequential_patterns s)"
  then show "ascending_run w" by (simp add: find_sequential_eq)
next
  fix w assume "w \<in> set (find_sequential_patterns s)"
  then have "ascending_run w" by (simp add: find_sequential_eq)
  then show "\<not> descending_run w" by (rule ascending_not_descending)
next
  show "find_sequential_patterns (str ''abcXYZ123'') = [str ''abc'', str ''XYZ'', str ''123'']"
    by (rule sequential_example)
next
  show "str ''cba'' \<notin> set (find_sequential_patterns (str ''abcXYZ123''))"
    unfolding sequential_example by (simp add: str_def)
qed

theorem sequential_findings_witness:
  "1 + 2 < length (str ''abcd'')
   \<and> slice (str ''abcd'') 1 (1 + 3) \<in> set (find_sequential_patterns (str ''abcd''))
   \<and> find_sequential_patterns (str ''abcd'') = [str ''abc'', str ''bcd'']"
proof -
  have len: "1 + 2 < length (str ''abcd'')" by (simp add: str_def)
  have run: "str ''abcd'' ! (1 + 1) = str ''abcd'' ! 1 + 1
             \<and> str ''abcd'' ! (1 + 2) = str ''abcd'' ! 1 + 2"
    by (simp add: str_def)
  have upt2: "[0 ..< 2] = [0, 1::nat]" by (simp add: upt_rec)
  from sequential_findings [of "str ''abcd''" 1]
  have "find_sequential_patterns (str ''abcd'') =
          filter ascending_run (map (\<lambda>k. slice (str ''abcd'') k (k + 3))
            [0 ..< length (str ''abcd'') - 2])"
    and "1 + 2 < length (str ''abcd'') \<longrightarrow>
          (slice (str ''abcd'') 1 (1 + 3) \<in> set (find_sequential_patterns (str ''abcd'')))
          = (str ''abcd'' ! (1 + 1) = str ''abcd'' ! 1 + 1
             \<and> str ''abcd'' ! (1 + 2) = str ''abcd'' ! 1 + 2)"
    by blast+
  then show ?thesis using len run by (simp add: str_def slice_def upt2)
qed

section \<open>Entropy\<close>

text \<open>The entropy in terms of the flags the character analyzer reports.\<close>

lemma charset_size_of_eq: "charset_size_of s = charset_size_spec (analyze_characters s)"
  by (simp add: charset_size_of_def charset_size_spec_def analyze_characters_def Let_def)

lemma charset_size_spec_zero:
  "charset_size_spec ca = 0 \<longleftrightarrow>
     \<not> has_lowercase ca \<and> \<not> has_uppercase ca \<and> \<not> has_digits ca \<and> \<not> has_special ca"
  by (simp add: charset_size_spec_def)

lemma entropy_spec:
  "calculate_entropy s =
    (if \<not> has_lowercase (analyze_characters s) \<and> \<not> has_uppercase (analyze_characters s)
        \<and> \<not> has_digits (analyze_characters s) \<and> \<not> has_special (analyze_characters s)
     then 0
     else round_ndigits
            (real (length s) * log 2 (real (charset_size_spec (analyze_characters s)))) 2)"
  unfolding calculate_entropy_def Let_def charset_size_of_eq charset_size_spec_zero
  by (rule refl)

lemma no_category_empty:
  "\<not> has_lowercase (analyze_characters []) \<and> \<not> has_uppercase (analyze_characters [])
   \<and> \<not> has_digits (analyze_characters []) \<and> \<not> has_special (analyze_characters [])"
  by (simp add: analyze_characters_def search_def)

lemma entropy_empty: "calculate_entropy [] = 0"
  by (simp add: calculate_entropy_def charset_size_of_def search_def)

text \<open>Where every digit of the password is an ASCII digit, the code computes the
  entropy of the specification.\<close>

lemma is_other_special: "is_other = is_special"
  by (auto simp: fun_eq_iff is_other_def is_special_def is_lower_def is_upper_def
      is_ascii_digit_def)

lemma entropy_ascii_digits:
  assumes "list_all (\<lambda>c. is_digit c = is_ascii_digit c) s"
  shows "calculate_entropy s = entropy_words s"
proof -
  have "list_ex is_digit s = list_ex is_ascii_digit s"
    using assms by (induction s) auto
  then have "charset_size_of s = charset_size_words s"
    by (simp add: charset_size_of_def charset_size_words_def search_def is_other_special)
  then show ?thesis by (simp add: calculate_entropy_def entropy_words_def)
qed

text \<open>The binary logarithm of \<open>42\<close> lies between \<open>5.385\<close> and \<open>5.395\<close>.\<close>

lemma log2_42_lower: "1077 / 200 < log 2 42"
proof -
  have "((2::real) powr (1077 / 200)) ^ 200 = 2 powr 1077"
    by (simp add: powr_power)
  also have "\<dots> = 2 ^ 1077" by (simp add: powr_realpow [symmetric])
  also have "\<dots> < (42::real) ^ 200" by simp
  finally have "(2::real) powr (1077 / 200) < 42"
    by (rule power_less_imp_less_base) simp
  then show ?thesis by (subst less_log_iff) simp_all
qed

lemma log2_42_upper: "log 2 42 < 1079 / 200"
proof -
  have "((2::real) powr (1079 / 200)) ^ 200 = 2 powr 1079"
    by (simp add: powr_power)
  also have "\<dots> = 2 ^ 1079" by (simp add: powr_realpow [symmetric])
  finally have "(42::real) ^ 200 < (2 powr (1079 / 200)) ^ 200" by simp
  then have "(42::real) < 2 powr (1079 / 200)"
    by (rule power_less_imp_less_base) simp
  then show ?thesis by (subst log_less_iff) simp_all
qed

lemma py_round_between:
  assumes "real_of_int k - 1 / 2 < x" "x < real_of_int k + 1 / 2"
  shows "py_round x = k"
  using py_round_nearest [of x] assms by linarith

lemma charset_size_unicode_digit: "charset_size_of [0x663] = 42"
  by (simp add: charset_size_of_def search_def is_digit_def nd_zeros_def is_special_def
      is_lower_def is_upper_def)

lemma entropy_unicode: "calculate_entropy [0x663] = 539 / 100"
proof -
  have "py_round (log 2 42 * 100) = 539"
    using log2_42_lower log2_42_upper by (intro py_round_between) simp_all
  then show ?thesis
    by (simp add: calculate_entropy_def charset_size_unicode_digit round_ndigits_def)
qed

lemma log2_32: "log 2 32 = 5"
proof -
  have "(32::real) = 2 powr 5" by simp
  then show ?thesis by (simp only: log_powr_cancel) 
qed

lemma py_round_int: "py_round (of_int k) = k"
  by (simp add: py_round_def)

lemma words_unicode: "charset_size_words [0x663] = 32 \<and> entropy_words [0x663] = 5"
proof -
  have c: "charset_size_words [0x663] = 32"
    by (simp add: charset_size_words_def is_lower_def is_upper_def is_ascii_digit_def
        is_other_def)
  have "py_round (5 * 100) = 500" using py_round_int [of 500] by simp
  then show ?thesis by (simp add: entropy_words_def c log2_32 round_ndigits_def)
qed

text \<open>
  Claim C4. The entropy is not, for every password, the formula over the four
  categories. For the password of the one character U+0663 (ARABIC-INDIC DIGIT THREE)
  the code finds a digit, by \<^verbatim>\<open>\d\<close>, and a special character, by \<^verbatim>\<open>[^a-zA-Z0-9]\<close>: its
  character-set size is \<open>10 + 32 = 42\<close> and its entropy \<open>5.39\<close>. In the specification the
  character is special only: the character-set size is \<open>32\<close> and the entropy \<open>5\<close>.
\<close>

theorem entropy_unicode_digit:
  "charset_size_of [0x663] = 42 \<and> calculate_entropy [0x663] = 539 / 100
   \<and> charset_size_words [0x663] = 32 \<and> entropy_words [0x663] = 5"
  using charset_size_unicode_digit entropy_unicode words_unicode by simp

section \<open>Crack time: the overflow of the power\<close>

lemma crack_time_empty: "estimate_crack_time rt [] = Inr ''Instant''"
  by (simp add: estimate_crack_time_def entropy_empty format_time_def Let_def)

lemma crack_time_below:
  "calculate_entropy s < 1024 \<Longrightarrow>
   estimate_crack_time rt s = Inr (format_time rt (2 powr calculate_entropy s / (2 * 10 ^ 9)))"
  by (simp add: estimate_crack_time_def Let_def)

text \<open>A password of 256 letters \<^verbatim>\<open>a\<close>: its entropy is above \<open>256 * 4\<close>.\<close>

lemma charset_size_long: "charset_size_of (replicate 256 97) = 26"
  by (simp add: charset_size_of_def search_def list_ex_iff is_lower_def is_upper_def
      is_digit_def nd_zeros_def is_special_def)

lemma log2_26: "4 \<le> log 2 26"
proof -
  have "(2::real) powr 4 \<le> 26" by simp
  then show ?thesis by (simp add: le_log_iff)
qed

lemma py_round_floor: "\<lfloor>x\<rfloor> \<le> py_round x"
  by (simp add: py_round_def Let_def)

lemma entropy_long: "1024 \<le> calculate_entropy (replicate 256 97)"
proof -
  have "(102400::real) \<le> 256 * log 2 26 * 10 ^ 2"
    using log2_26 by simp
  then have "(102400::int) \<le> \<lfloor>256 * log 2 26 * 10 ^ 2 :: real\<rfloor>"
    by (simp add: le_floor_iff)
  then have "(102400::int) \<le> py_round (256 * log 2 26 * 10 ^ 2)"
    using py_round_floor [of "256 * log 2 26 * 10 ^ 2"] by linarith
  then have "(102400::real) \<le> of_int (py_round (256 * log 2 26 * 10 ^ 2))"
    by linarith
  then show ?thesis
    by (simp add: calculate_entropy_def charset_size_long round_ndigits_def)
qed

lemma crack_time_long: "estimate_crack_time rt (replicate 256 97) = Inl OverflowError"
  using entropy_long by (simp add: estimate_crack_time_def Let_def)

text \<open>
  Claim C5. The crack-time string follows the stated formula and breakpoints only
  while the power \<^verbatim>\<open>2 ** entropy\<close> is a double. For the password of 256 letters \<^verbatim>\<open>a\<close>
  (entropy \<open>1203.31\<close>) \<open>_estimate_crack_time\<close> raises \<^verbatim>\<open>OverflowError\<close> and returns no
  string, where the claim has a number of years; the empty password does give
  \<^verbatim>\<open>Instant\<close>.
\<close>

theorem crack_time_overflow:
  "estimate_crack_time rt (replicate 256 97) = Inl OverflowError
   \<and> 1024 \<le> calculate_entropy (replicate 256 97)
   \<and> estimate_crack_time rt [] = Inr ''Instant''"
  using crack_time_long [of rt] entropy_long crack_time_empty [of rt] by simp

section \<open>Evaluation: the range of the score\<close>

lemma clamp_range: "0 \<le> max (0::int) (min 100 x) \<and> max 0 (min 100 x) \<le> 100"
  by simp

lemma score_range: "0 \<le> calculate_strength_score a \<and> calculate_strength_score a \<le> 100"
  unfolding calculate_strength_score_def Let_def by (rule clamp_range)

text \<open>Whenever evaluation returns an analysis, its score is in range and its level is
  the level of its score.\<close>

lemma analyze_password_score:
  assumes "analyze_password rt s = Inr a"
  shows "0 \<le> strength_score a \<and> strength_score a \<le> 100
         \<and> strength_level a = get_strength_level (strength_score a)"
proof -
  obtain t where t: "estimate_crack_time rt s = Inr t"
    using assms by (auto simp: analyze_password_def split: sum.splits)
  let ?a0 = "\<lparr> password_key = s, length_key = length s, strength_score = 0,
      strength_level = ''Very Weak'', character_analysis = analyze_characters s,
      pattern_analysis = analyze_patterns rt s, security_checks_key = security_checks rt s,
      entropy = calculate_entropy s, crack_time = t, recommendations = [] \<rparr>"
  have "strength_score a = calculate_strength_score ?a0
        \<and> strength_level a = get_strength_level (calculate_strength_score ?a0)"
    using assms by (auto simp: analyze_password_def t Let_def)
  then show ?thesis using score_range [of ?a0] by simp
qed

text \<open>Evaluation returns an analysis exactly when the entropy is below \<open>1024\<close>.\<close>

lemma analyze_password_returns:
  "(\<exists>a. analyze_password rt s = Inr a) \<longleftrightarrow> calculate_entropy s < 1024"
  by (auto simp: analyze_password_def estimate_crack_time_def Let_def)

text \<open>
  Claim C2. Not every non-empty password gets a score from evaluation: for the
  password of 256 letters \<^verbatim>\<open>a\<close>, \<open>analyze_password\<close> raises \<^verbatim>\<open>OverflowError\<close> while it
  builds the \<open>crack_time\<close> entry, before the score is computed. (Where evaluation
  returns, the score is in the range and the level follows the bands:
  \<open>analyze_password_score\<close>.)
\<close>

theorem evaluation_overflow:
  "replicate 256 97 \<noteq> ([]::pystr)
   \<and> analyze_password rt (replicate 256 97) = Inl OverflowError"
  by (simp add: analyze_password_def crack_time_long)

section \<open>The character analyzer: digits outside ASCII\<close>

text \<open>Within ASCII the class \<^verbatim>\<open>\d\<close> is \<^verbatim>\<open>0\<close> to \<^verbatim>\<open>9\<close>, and the four counts partition a
  password without other digits.\<close>

lemma ascii_digit: "c < 128 \<Longrightarrow> is_digit c = (48 \<le> c \<and> c \<le> 57)"
  by (auto simp: is_digit_def nd_zeros_def)

lemma count_partition:
  "list_all (\<lambda>c. is_digit c = (48 \<le> c \<and> c \<le> 57)) s \<Longrightarrow>
   findall_count is_lower s + findall_count is_upper s + findall_count is_digit s
     + findall_count is_special s = length s"
  by (induction s) (auto simp: findall_count_def is_lower_def is_upper_def is_special_def)

text \<open>
  Claim C3. The four counts do not always sum to the length: the password of the one
  character U+0663 (ARABIC-INDIC DIGIT THREE) is counted as a digit by \<^verbatim>\<open>\d\<close> and as
  special by \<^verbatim>\<open>[^a-zA-Z0-9]\<close>, so the counts sum to \<open>2\<close> for a password of length \<open>1\<close>.
\<close>

theorem unicode_digit_counted_twice:
  "lowercase (analyze_characters [0x663]) = 0
   \<and> uppercase (analyze_characters [0x663]) = 0
   \<and> digits (analyze_characters [0x663]) = 1
   \<and> special (analyze_characters [0x663]) = 1
   \<and> length [0x663::nat] = 1"
  by (simp add: analyze_characters_def findall_count_def is_digit_def nd_zeros_def
      is_special_def is_lower_def is_upper_def)

section \<open>The empty password\<close>

text \<open>Nothing is found in the empty password, and it is not in the list of common
  passwords.\<close>

lemma lower_empty: "lower rt [] = []"
  by (simp add: lower_def)

lemma repeated_empty: "find_repeated_chars [] = []"
  by (simp add: find_repeated_chars_def repeated_loop.simps)

lemma sequential_empty: "find_sequential_patterns [] = []"
  by (simp add: find_sequential_eq)

lemma dictionary_empty: "find_dictionary_words rt [] = []"
  by (simp add: find_dictionary_words_def lower_empty common_words_def str_def lower_def)

lemma not_common_empty: "[] \<notin> set common_passwords"
  by (simp add: common_passwords_def str_def)

lemma py_round_20: "py_round 20 = 20"
  by (simp add: py_round_def)



lemma upt8: "[0 ..< 8] = [0, 1, 2, 3, 4, 5, 6, 7::nat]"
  by (simp add: upt_rec)

lemma upt5: "[0 ..< 5] = [0, 1, 2, 3, 4::nat]"
  by (simp add: upt_rec)

lemma keyboard_windows:
  "concat (map row_windows keyboard_rows) = map str
     [''qwe'', ''wer'', ''ert'', ''rty'', ''tyu'', ''yui'', ''uio'', ''iop'',
      ''asd'', ''sdf'', ''dfg'', ''fgh'', ''ghj'', ''hjk'', ''jkl'',
      ''zxc'', ''xcv'', ''cvb'', ''vbn'', ''bnm'',
      ''123'', ''234'', ''345'', ''456'', ''567'', ''678'', ''789'', ''890'']"
  by (simp add: keyboard_rows_def row_windows_def str_def slice_def upt8 upt7 upt5)

lemma find_keyboard_patterns_eq:
  "find_keyboard_patterns rt s =
     filter (\<lambda>pattern. is_substring (lower rt pattern) (lower rt s))
       (concat (map row_windows keyboard_rows))"
  by (simp add: find_keyboard_patterns_def filter_concat comp_def)

lemma keyboard_empty: "find_keyboard_patterns rt [] = []"
  unfolding find_keyboard_patterns_eq keyboard_windows
  by (simp add: lower_def str_def)

text \<open>
  Claim C10. Evaluating the empty password returns an analysis whose score is exactly
  \<open>20\<close> and whose level is \<^verbatim>\<open>Weak\<close>: the length band, the four character categories,
  the entropy band, the bonus for the basic requirements and the four penalties
  contribute nothing, and the two bonuses of \<open>10\<close> for a password that is neither common
  nor reported as leaked apply, the empty password being absent from the list.
\<close>

theorem empty_password_scores_20:
  "\<exists>a. analyze_password rt [] = Inr a
     \<and> strength_score a = 20 \<and> strength_level a = ''Weak''
     \<and> length_band (length_key a) = 0
     \<and> \<not> has_lowercase (character_analysis a) \<and> \<not> has_uppercase (character_analysis a)
     \<and> \<not> has_digits (character_analysis a) \<and> \<not> has_special (character_analysis a)
     \<and> entropy_band (entropy a) = 0
     \<and> \<not> is_common (security_checks_key a) \<and> \<not> pwned_check (security_checks_key a)
     \<and> \<not> all_met (meets_basic_requirements_key (security_checks_key a))
     \<and> repeated_chars (pattern_analysis a) = [] \<and> sequential (pattern_analysis a) = []
     \<and> keyboard_patterns (pattern_analysis a) = [] \<and> dictionary_words (pattern_analysis a) = []"
proof -
  obtain a where a: "analyze_password rt [] = Inr a"
    using analyze_password_returns [of rt "[]"] entropy_empty by auto
  have t: "estimate_crack_time rt [] = Inr ''Instant''" by (rule crack_time_empty)
  let ?a0 = "\<lparr> password_key = [], length_key = length ([]::pystr), strength_score = 0,
      strength_level = ''Very Weak'', character_analysis = analyze_characters [],
      pattern_analysis = analyze_patterns rt [], security_checks_key = security_checks rt [],
      entropy = calculate_entropy [], crack_time = ''Instant'', recommendations = [] \<rparr>"
  have sc: "strength_score a = calculate_strength_score ?a0
        \<and> strength_level a = get_strength_level (calculate_strength_score ?a0)"
    using a by (auto simp: analyze_password_def t Let_def)
  have flds: "length_key a = 0 \<and> character_analysis a = analyze_characters []
        \<and> entropy a = 0 \<and> security_checks_key a = security_checks rt []
        \<and> pattern_analysis a = analyze_patterns rt []"
    using a by (auto simp: analyze_password_def t Let_def entropy_empty)
  have sec: "\<not> is_common (security_checks rt []) \<and> \<not> pwned_check (security_checks rt [])
        \<and> \<not> all_met (meets_basic_requirements_key (security_checks rt []))"
    by (simp add: security_checks_def check_pwned_passwords_def lower_empty not_common_empty
        meets_basic_requirements_def)
  have pat: "repeated_chars (analyze_patterns rt []) = []
        \<and> sequential (analyze_patterns rt []) = []
        \<and> keyboard_patterns (analyze_patterns rt []) = []
        \<and> dictionary_words (analyze_patterns rt []) = []"
    by (simp add: analyze_patterns_def repeated_empty sequential_empty keyboard_empty
        dictionary_empty)
  have "additive_synthesis ?a0 = 20"
    by (simp add: additive_synthesis_def length_band_def entropy_band_def no_category_empty
      entropy_empty sec pat)
  then have "calculate_strength_score ?a0 = 20"
    unfolding score_sum by (simp add: py_round_20)
  then have "strength_score a = 20 \<and> strength_level a = ''Weak''"
    using sc by (simp add: get_strength_level_def)
  then show ?thesis
    using a flds sec pat no_category_empty
    by (simp add: length_band_def entropy_band_def)
qed

section \<open>The password generator\<close>

text \<open>An index computed from a random number in \<open>[0, 1)\<close> falls inside the string.\<close>

lemma char_at_pick:
  assumes "0 \<le> r" "r < 1" "real (length s) = n" "0 < n"
  shows "char_at s \<lfloor>r * n\<rfloor> = [s ! nat \<lfloor>r * n\<rfloor>] \<and> s ! nat \<lfloor>r * n\<rfloor> \<in> set s"
proof -
  have nonneg: "0 \<le> \<lfloor>r * n\<rfloor>" using assms by simp
  have "r * n < n" using assms by simp
  then have "\<lfloor>r * n\<rfloor> < int (length s)"
    using assms(3) by (simp add: floor_less_iff)
  then have "nat \<lfloor>r * n\<rfloor> < length s" using nonneg by linarith
  then have "s ! nat \<lfloor>r * n\<rfloor> \<in> set s" by (rule nth_mem)
  moreover have "char_at s \<lfloor>r * n\<rfloor> = [s ! nat \<lfloor>r * n\<rfloor>]"
    using nonneg \<open>\<lfloor>r * n\<rfloor> < int (length s)\<close> by (simp add: char_at_def)
  ultimately show ?thesis by blast
qed

lemma fill_loop_eq:
  "fill_loop random chars i pw =
     pw @ concat (map (\<lambda>k. char_at chars \<lfloor>random k * real (length chars)\<rfloor>) [i ..< 16])"
proof (induction random chars i pw rule: fill_loop.induct)
  case (1 random chars i pw)
  show ?case
  proof (cases "i < 16")
    case True
    then have upt: "[i ..< 16] = i # [i + 1 ..< 16]" by (simp add: upt_conv_Cons)
    have step: "fill_loop random chars i pw = fill_loop random chars (i + 1)
        (pw @ char_at chars \<lfloor>random i * real (length chars)\<rfloor>)"
      using True by (subst fill_loop.simps) (simp only: if_True)
    show ?thesis unfolding step "1.IH" [OF True] upt by simp
  next
    case False
    have "fill_loop random chars i pw = pw"
      using False by (subst fill_loop.simps) (simp only: if_False)
    then show ?thesis using False by simp
  qed
qed

lemma concat_singletons:
  "(\<And>k. k \<in> set ks \<Longrightarrow> f k = [g k]) \<Longrightarrow> concat (map f ks) = map g ks"
  by (induction ks) auto

lemma mset_concat_perm:
  assumes "mset ys = mset xs"
  shows "mset (concat ys) = mset (concat xs)"
proof -
  have "mset (concat ys) = sum_mset (image_mset mset (mset ys))"
    by (induction ys) auto
  also have "\<dots> = sum_mset (image_mset mset (mset xs))" using assms by simp
  also have "\<dots> = mset (concat xs)" by (induction xs) auto
  finally show ?thesis .
qed

lemma concat_split: "concat (map (\<lambda>c. [c]) p) = p"
  by (induction p) auto

text \<open>Up to its order, the generated password is one character of each of the four
  alphabets followed by twelve characters of the union alphabet.\<close>

lemma generated_mset:
  assumes rnd: "\<And>k. k < 16 \<Longrightarrow> 0 \<le> random k \<and> random k < 1"
    and perm: "\<And>xs. mset (sort_random xs) = mset xs"
  shows "mset (generatePassword random sort_random) =
         mset ([upper_letters ! nat \<lfloor>random 0 * 26\<rfloor>, lower_letters ! nat \<lfloor>random 1 * 26\<rfloor>,
                digit_chars ! nat \<lfloor>random 2 * 10\<rfloor>, symbol_chars ! nat \<lfloor>random 3 * 8\<rfloor>]
               @ map (\<lambda>k. chars70 ! nat \<lfloor>random k * 70\<rfloor>) [4 ..< 16])"
proof -
  have u: "char_at upper_letters \<lfloor>random 0 * 26\<rfloor> = [upper_letters ! nat \<lfloor>random 0 * 26\<rfloor>]"
    using char_at_pick [of "random 0" upper_letters 26] rnd [of 0] by (simp add: upper_letters_def)
  have l: "char_at lower_letters \<lfloor>random 1 * 26\<rfloor> = [lower_letters ! nat \<lfloor>random 1 * 26\<rfloor>]"
    using char_at_pick [of "random 1" lower_letters 26] rnd [of 1] by (simp add: lower_letters_def)
  have d: "char_at digit_chars \<lfloor>random 2 * 10\<rfloor> = [digit_chars ! nat \<lfloor>random 2 * 10\<rfloor>]"
    using char_at_pick [of "random 2" digit_chars 10] rnd [of 2] by (simp add: digit_chars_def)
  have s: "char_at symbol_chars \<lfloor>random 3 * 8\<rfloor> = [symbol_chars ! nat \<lfloor>random 3 * 8\<rfloor>]"
    using char_at_pick [of "random 3" symbol_chars 8] rnd [of 3] by (simp add: symbol_chars_def)
  have len70: "real (length chars70) = 70" by (simp add: chars70_def)
  have f: "concat (map (\<lambda>k. char_at chars70 \<lfloor>random k * real (length chars70)\<rfloor>) [4 ..< 16])
           = map (\<lambda>k. chars70 ! nat \<lfloor>random k * 70\<rfloor>) [4 ..< 16]"
  proof (rule concat_singletons)
    fix k assume "k \<in> set [4 ..< 16]"
    then have "k < 16" by (simp only: set_upt atLeastLessThan_iff)
    then show "char_at chars70 \<lfloor>random k * real (length chars70)\<rfloor> = [chars70 ! nat \<lfloor>random k * 70\<rfloor>]"
      using char_at_pick [of "random k" chars70 70] rnd [of k] len70 by simp
  qed
  have unf: "generatePassword random sort_random =
        concat (sort_random (map (\<lambda>c. [c])
          (char_at upper_letters \<lfloor>random 0 * 26\<rfloor> @ char_at lower_letters \<lfloor>random 1 * 26\<rfloor>
           @ char_at digit_chars \<lfloor>random 2 * 10\<rfloor> @ char_at symbol_chars \<lfloor>random 3 * 8\<rfloor>
           @ concat (map (\<lambda>k. char_at chars70 \<lfloor>random k * real (length chars70)\<rfloor>)
               [4 ..< 16]))))"
    by (simp add: generatePassword_def Let_def fill_loop_eq upper_letters_def lower_letters_def
        digit_chars_def symbol_chars_def chars70_def)
  have "generatePassword random sort_random =
        concat (sort_random (map (\<lambda>c. [c])
          ([upper_letters ! nat \<lfloor>random 0 * 26\<rfloor>, lower_letters ! nat \<lfloor>random 1 * 26\<rfloor>,
            digit_chars ! nat \<lfloor>random 2 * 10\<rfloor>, symbol_chars ! nat \<lfloor>random 3 * 8\<rfloor>]
           @ map (\<lambda>k. chars70 ! nat \<lfloor>random k * 70\<rfloor>) [4 ..< 16])))"
    unfolding unf u l d s f by simp
  then show ?thesis
    using mset_concat_perm [OF perm] by (simp only: concat_split)
qed


lemma generated_length:
  assumes rnd: "\<And>k. k < 16 \<Longrightarrow> 0 \<le> random k \<and> random k < 1"
    and perm: "\<And>xs. mset (sort_random xs) = mset xs"
  shows "length (generatePassword random sort_random) = 16"
proof -
  have "mset (generatePassword random sort_random) = mset
         ([upper_letters ! nat \<lfloor>random 0 * 26\<rfloor>, lower_letters ! nat \<lfloor>random 1 * 26\<rfloor>,
                digit_chars ! nat \<lfloor>random 2 * 10\<rfloor>, symbol_chars ! nat \<lfloor>random 3 * 8\<rfloor>]
               @ map (\<lambda>k. chars70 ! nat \<lfloor>random k * 70\<rfloor>) [4 ..< 16])"
    using rnd perm by (rule generated_mset)
  then have "length (generatePassword random sort_random) = length
         ([upper_letters ! nat \<lfloor>random 0 * 26\<rfloor>, lower_letters ! nat \<lfloor>random 1 * 26\<rfloor>,
                digit_chars ! nat \<lfloor>random 2 * 10\<rfloor>, symbol_chars ! nat \<lfloor>random 3 * 8\<rfloor>]
               @ map (\<lambda>k. chars70 ! nat \<lfloor>random k * 70\<rfloor>) [4 ..< 16])"
    by (rule mset_eq_length)
  then show ?thesis by simp
qed

lemma generated_members:
  assumes rnd: "\<And>k. k < 16 \<Longrightarrow> 0 \<le> random k \<and> random k < 1"
    and perm: "\<And>xs. mset (sort_random xs) = mset xs"
  shows "upper_letters ! nat \<lfloor>random 0 * 26\<rfloor> \<in> set (generatePassword random sort_random)
       \<and> lower_letters ! nat \<lfloor>random 1 * 26\<rfloor> \<in> set (generatePassword random sort_random)
       \<and> digit_chars ! nat \<lfloor>random 2 * 10\<rfloor> \<in> set (generatePassword random sort_random)
       \<and> symbol_chars ! nat \<lfloor>random 3 * 8\<rfloor> \<in> set (generatePassword random sort_random)"
proof -
  have "mset (generatePassword random sort_random) = mset
         ([upper_letters ! nat \<lfloor>random 0 * 26\<rfloor>, lower_letters ! nat \<lfloor>random 1 * 26\<rfloor>,
                digit_chars ! nat \<lfloor>random 2 * 10\<rfloor>, symbol_chars ! nat \<lfloor>random 3 * 8\<rfloor>]
               @ map (\<lambda>k. chars70 ! nat \<lfloor>random k * 70\<rfloor>) [4 ..< 16])"
    using rnd perm by (rule generated_mset)
  then have "set (generatePassword random sort_random) = set
         ([upper_letters ! nat \<lfloor>random 0 * 26\<rfloor>, lower_letters ! nat \<lfloor>random 1 * 26\<rfloor>,
                digit_chars ! nat \<lfloor>random 2 * 10\<rfloor>, symbol_chars ! nat \<lfloor>random 3 * 8\<rfloor>]
               @ map (\<lambda>k. chars70 ! nat \<lfloor>random k * 70\<rfloor>) [4 ..< 16])"
    by (rule mset_eq_setD)
  then show ?thesis by simp
qed

text \<open>
  Claim C9. The generator does not return a password of the requested length: whatever
  length \<open>n\<close> is asked for, and so for \<open>n = 20\<close>, the password has \<open>16\<close> characters. It
  holds at least one uppercase letter, one lowercase letter, one digit and one of the
  eight symbols. This is for every run of \<^verbatim>\<open>Math.random()\<close> with values in \<open>[0, 1)\<close> and
  every outcome of the sort that is a rearrangement of its input.
\<close>

theorem generator_ignores_requested_length:
  assumes rnd: "\<And>k. k < 16 \<Longrightarrow> 0 \<le> random k \<and> random k < 1"
    and perm: "\<And>xs. mset (sort_random xs) = mset xs"
  shows "length (generatePassword_requested n random sort_random) = 16
       \<and> set (generatePassword_requested n random sort_random) \<inter> set upper_letters \<noteq> {}
       \<and> set (generatePassword_requested n random sort_random) \<inter> set lower_letters \<noteq> {}
       \<and> set (generatePassword_requested n random sort_random) \<inter> set digit_chars \<noteq> {}
       \<and> set (generatePassword_requested n random sort_random) \<inter> set symbol_chars \<noteq> {}"
proof -
  have u: "upper_letters ! nat \<lfloor>random 0 * 26\<rfloor> \<in> set upper_letters"
    using char_at_pick [of "random 0" upper_letters 26] rnd [of 0] by (simp add: upper_letters_def)
  have l: "lower_letters ! nat \<lfloor>random 1 * 26\<rfloor> \<in> set lower_letters"
    using char_at_pick [of "random 1" lower_letters 26] rnd [of 1] by (simp add: lower_letters_def)
  have d: "digit_chars ! nat \<lfloor>random 2 * 10\<rfloor> \<in> set digit_chars"
    using char_at_pick [of "random 2" digit_chars 10] rnd [of 2] by (simp add: digit_chars_def)
  have s: "symbol_chars ! nat \<lfloor>random 3 * 8\<rfloor> \<in> set symbol_chars"
    using char_at_pick [of "random 3" symbol_chars 8] rnd [of 3] by (simp add: symbol_chars_def)
  show ?thesis
    unfolding generatePassword_requested_def
    using generated_length [of random sort_random] generated_members [of random sort_random]
      rnd perm u l d s
    by blast
qed

text \<open>The run in which every call of \<^verbatim>\<open>Math.random()\<close> returns \<open>0\<close> and the sort leaves
  the order as it is, asked for \<open>20\<close> characters.\<close>

theorem generator_ignores_requested_length_witness:
  "length (generatePassword_requested 20 (\<lambda>k. 0) (\<lambda>xs. xs)) = 16
   \<and> set (generatePassword_requested 20 (\<lambda>k. 0) (\<lambda>xs. xs)) \<inter> set upper_letters \<noteq> {}
   \<and> set (generatePassword_requested 20 (\<lambda>k. 0) (\<lambda>xs. xs)) \<inter> set lower_letters \<noteq> {}
   \<and> set (generatePassword_requested 20 (\<lambda>k. 0) (\<lambda>xs. xs)) \<inter> set digit_chars \<noteq> {}
   \<and> set (generatePassword_requested 20 (\<lambda>k. 0) (\<lambda>xs. xs)) \<inter> set symbol_chars \<noteq> {}"
  using generator_ignores_requested_length [of "\<lambda>k. 0" "\<lambda>xs. xs" 20] by simp

end
